theory Spec2Isabelle
  imports Main "HOL-Library.Multiset"
begin

section \<open>Data model\<close>

text \<open>
  The embedding covers \<^verbatim>\<open>extract_dataflow\<close> and \<^verbatim>\<open>convert_examples_to_features\<close>
  of \<^verbatim>\<open>Transformer/run.py\<close>.  Python exceptions are values of \<open>py_error\<close>; a function
  that may raise returns \<open>py_error + 'a\<close> with \<open>Inl\<close> for the exception.
  \<open>Raised\<close> stands for any exception coming out of the imported parser package or the
  grammar; \<open>UnboundLocalError\<close> and \<open>KeyError\<close> are the two exceptions the modelled
  functions can raise themselves.
\<close>

datatype py_error = UnboundLocalError | KeyError | Raised string

text \<open>A token index is the pair (start point, end point) of a leaf, each a (row, column).\<close>

type_synonym point = "int \<times> int"
type_synonym token_index = "point \<times> point"

datatype edge_kind = comesFrom | computedFrom

text \<open>
  Modelled from the spec: the tuple type of a dataflow edge, which the absent
  \<^verbatim>\<open>parser\<close> package builds.  \<^verbatim>\<open>run.py\<close> reads two components only: \<^verbatim>\<open>d[1]\<close>, the
  sort key, here \<open>target_index\<close>, and \<^verbatim>\<open>d[-1]\<close>, here \<open>source_indices\<close>.
\<close>

record dataflow_edge =
  identifier_text :: string
  target_index :: int
  kind :: edge_kind
  source_indices :: "int list"

text \<open>
  The functions imported from the \<^verbatim>\<open>parser\<close> package are parameters of the model.
  \<open>'t\<close> is the type of syntax trees.
\<close>

record 't parser_lib =
  remove_comments_and_docstrings :: "string \<Rightarrow> string \<Rightarrow> py_error + string"
  tree_to_token_index :: "'t \<Rightarrow> py_error + token_index list"
  index_to_code_token :: "token_index \<Rightarrow> string list \<Rightarrow> py_error + string"

text \<open>
  An entry of \<^verbatim>\<open>parsers\<close>: \<^verbatim>\<open>parser[0].parse(bytes(code, 'utf8'))\<close> is \<open>parse\<close> (encoding
  included), \<^verbatim>\<open>parser[1](root_node, index_to_code, {})\<close> is \<open>dfg\<close>; the second component
  of its result is discarded by the caller and is left out.
\<close>

record 't lang_parser =
  parse :: "string \<Rightarrow> py_error + 't"
  dfg :: "'t \<Rightarrow> (token_index \<rightharpoonup> nat \<times> string) \<Rightarrow> py_error + dataflow_edge list"

section \<open>Python primitives\<close>

text \<open>\<^verbatim>\<open>s.split('\n')\<close>: never empty, one more piece than there are separators.\<close>

fun split_sep :: "char \<Rightarrow> string \<Rightarrow> string list" where
  "split_sep c [] = [[]]"
| "split_sep c (x # xs) =
     (if x = c then [] # split_sep c xs
      else (case split_sep c xs of
              [] \<Rightarrow> [[x]]
            | y # ys \<Rightarrow> (x # y) # ys))"

text \<open>\<^verbatim>\<open>xs[:n]\<close>: a negative bound counts from the end, and the result is clamped.\<close>

definition slice_to :: "int \<Rightarrow> 'a list \<Rightarrow> 'a list" where
  "slice_to n xs =
     (if 0 \<le> n then take (nat n) xs else take (length xs - nat (- n)) xs)"

text \<open>\<^verbatim>\<open>[x] * n\<close>: empty when \<open>n\<close> is not positive.\<close>

definition repeat :: "'a \<Rightarrow> int \<Rightarrow> 'a list" where
  "repeat x n = replicate (nat n) x"

text \<open>\<^verbatim>\<open>sep.join(xs)\<close>\<close>

fun join :: "string \<Rightarrow> string list \<Rightarrow> string" where
  "join sep [] = []"
| "join sep [x] = x"
| "join sep (x # y # ys) = x @ sep @ join sep (y # ys)"

text \<open>A list comprehension whose element expression may raise: the first exception wins.\<close>

fun map_raise :: "('a \<Rightarrow> py_error + 'b) \<Rightarrow> 'a list \<Rightarrow> py_error + 'b list" where
  "map_raise f [] = Inr []"
| "map_raise f (x # xs) =
     (case f x of
        Inl e \<Rightarrow> Inl e
      | Inr y \<Rightarrow> (case map_raise f xs of Inl e \<Rightarrow> Inl e | Inr ys \<Rightarrow> Inr (y # ys)))"

section \<open>extract_dataflow\<close>

text \<open>Lines 70-73: comment stripping inside \<^verbatim>\<open>try ... except: pass\<close>.\<close>

definition strip_comments :: "'t parser_lib \<Rightarrow> string \<Rightarrow> string \<Rightarrow> string" where
  "strip_comments lib code lang =
     (case remove_comments_and_docstrings lib code lang of
        Inl e \<Rightarrow> code
      | Inr code' \<Rightarrow> code')"

text \<open>Lines 75-76.\<close>

definition wrap_php :: "string \<Rightarrow> string \<Rightarrow> string" where
  "wrap_php code lang = (if lang = ''php'' then ''<?php'' @ code @ ''?>'' else code)"

text \<open>Lines 83-85: later entries overwrite earlier ones with the same key.\<close>

definition build_index_to_code ::
  "token_index list \<Rightarrow> string list \<Rightarrow> (token_index \<rightharpoonup> nat \<times> string)" where
  "build_index_to_code tokens_index code_tokens =
     fold (\<lambda>(idx, (index, code)) m. m(index \<mapsto> (idx, code)))
          (enumerate 0 (zip tokens_index code_tokens)) Map.empty"

text \<open>Lines 91-96: the set \<^verbatim>\<open>indexs\<close>, filled by the loop over the sorted edges.\<close>

definition add_edge_indexs :: "dataflow_edge \<Rightarrow> int set \<Rightarrow> int set" where
  "add_edge_indexs d indexs =
     fold insert (source_indices d)
       (if length (source_indices d) \<noteq> 0 then insert (target_index d) indexs else indexs)"

definition collect_indexs :: "dataflow_edge list \<Rightarrow> int set" where
  "collect_indexs DFG = fold add_edge_indexs DFG {}"

text \<open>
  Lines 90-101, the pruning step: Python's \<^verbatim>\<open>sorted\<close> with a key is a stable sort, as is
  \<open>sort_key\<close>.
\<close>

definition prune_dfg :: "dataflow_edge list \<Rightarrow> dataflow_edge list" where
  "prune_dfg DFG0 =
     (let DFG = sort_key target_index DFG0;
          indexs = collect_indexs DFG
      in filter (\<lambda>d. target_index d \<in> indexs) DFG)"

text \<open>
  Lines 78-101, the body of the outer \<^verbatim>\<open>try\<close>.  The result is the binding of the local
  \<^verbatim>\<open>code_tokens\<close> when the body is left (\<open>None\<close>: still unbound) and either the exception
  that left it or the value assigned to \<^verbatim>\<open>dfg\<close>.  The inner \<^verbatim>\<open>try\<close> of lines 86-89
  replaces a failure of the analysis by the empty edge list.
\<close>

definition try_body ::
  "'t parser_lib \<Rightarrow> 't lang_parser \<Rightarrow> string
     \<Rightarrow> string list option \<times> (py_error + dataflow_edge list)" where
  "try_body lib parser code =
     (case parse parser code of
        Inl e \<Rightarrow> (None, Inl e)
      | Inr tree \<Rightarrow>
          (case tree_to_token_index lib tree of
             Inl e \<Rightarrow> (None, Inl e)
           | Inr tokens_index \<Rightarrow>
               (case map_raise (\<lambda>x. index_to_code_token lib x (split_sep (CHR 0x0A) code))
                       tokens_index of
                  Inl e \<Rightarrow> (None, Inl e)
                | Inr code_tokens \<Rightarrow>
                    (let index_to_code = build_index_to_code tokens_index code_tokens;
                         DFG = (case dfg parser tree index_to_code of
                                  Inl e \<Rightarrow> []
                                | Inr D \<Rightarrow> D)
                     in (Some code_tokens, Inr (prune_dfg DFG))))))"

text \<open>
  Lines 102-104: \<^verbatim>\<open>except: dfg = []\<close>, then \<^verbatim>\<open>return code_tokens, dfg\<close>, which raises
  \<^verbatim>\<open>UnboundLocalError\<close> when \<^verbatim>\<open>code_tokens\<close> was never assigned.
\<close>

definition finish ::
  "string list option \<times> (py_error + dataflow_edge list)
     \<Rightarrow> py_error + string list \<times> dataflow_edge list" where
  "finish r =
     (let graph = (case snd r of Inl e \<Rightarrow> [] | Inr d \<Rightarrow> d)
      in case fst r of
           None \<Rightarrow> Inl UnboundLocalError
         | Some code_tokens \<Rightarrow> Inr (code_tokens, graph))"

definition extract_dataflow ::
  "'t parser_lib \<Rightarrow> 't lang_parser \<Rightarrow> string \<Rightarrow> string
     \<Rightarrow> py_error + string list \<times> dataflow_edge list" where
  "extract_dataflow lib parser code lang =
     finish (try_body lib parser (wrap_php (strip_comments lib code lang) lang))"

section \<open>convert_examples_to_features\<close>

text \<open>
  The tokenizer capability: \<^verbatim>\<open>tokenize\<close>, \<^verbatim>\<open>convert_tokens_to_ids\<close> and the sentinel
  attributes.
\<close>

record tokenizer =
  tokenize :: "string \<Rightarrow> string list"
  convert_tokens_to_ids :: "string list \<Rightarrow> int list"
  cls_token :: string
  sep_token :: string
  pad_token_id :: int

record args =
  lang :: string
  code_length :: int
  nl_length :: int

text \<open>
  The input record, a JSON object with the fields \<^verbatim>\<open>original_string\<close>,
  \<^verbatim>\<open>docstring_tokens\<close> and \<^verbatim>\<open>url\<close> that the function reads.  Objects lacking one of
  them are not values of this type.  The tokenizer's methods are total functions.
\<close>

record json_record =
  original_string :: string
  docstring_tokens :: "string list"
  url :: string

record InputFeatures =
  code_tokens :: "string list"
  code_ids :: "int list"
  nl_tokens :: "string list"
  nl_ids :: "int list"
  url :: string
  teacher_code_ids :: "int list option"
  teacher_nl_ids :: "int list option"

text \<open>
  Lines 132-136: every code token but the first is tokenized behind the marker \<^verbatim>\<open>'@ '\<close>
  and loses its first piece (\<^verbatim>\<open>[1:]\<close> of an empty list is empty); the pieces are flattened.
\<close>

definition subword_pieces :: "tokenizer \<Rightarrow> string list \<Rightarrow> string list" where
  "subword_pieces tk toks =
     concat (map (\<lambda>(idx, x). if idx \<noteq> 0 then tl (tokenize tk (''@ '' @ x))
                              else tokenize tk x)
                 (enumerate 0 toks))"

text \<open>Lines 137-141, from the flattened pieces to the padded id sequence.\<close>

definition code_side :: "tokenizer \<Rightarrow> args \<Rightarrow> string list \<Rightarrow> string list \<times> int list" where
  "code_side tk a toks =
     (let cut = slice_to (code_length a - 2) (subword_pieces tk toks);
          wrapped = [cls_token tk] @ cut @ [sep_token tk];
          ids = convert_tokens_to_ids tk wrapped;
          padding_length = code_length a - int (length ids)
      in (wrapped, ids @ repeat (pad_token_id tk) padding_length))"

text \<open>Lines 143-152.\<close>

definition nl_side :: "tokenizer \<Rightarrow> args \<Rightarrow> string list \<Rightarrow> string list \<times> int list" where
  "nl_side tk a doc =
     (let nl = join '' '' doc;
          cut = slice_to (nl_length a - 2) (tokenize tk nl);
          wrapped = [cls_token tk] @ cut @ [sep_token tk];
          ids = convert_tokens_to_ids tk wrapped;
          padding_length = nl_length a - int (length ids)
      in (wrapped, ids @ repeat (pad_token_id tk) padding_length))"

text \<open>
  Lines 127-154.  \<^verbatim>\<open>parsers[args.lang]\<close> raises \<^verbatim>\<open>KeyError\<close> for a language without an
  entry; an exception of \<^verbatim>\<open>extract_dataflow\<close> is not caught here.
\<close>

definition convert_examples_to_features ::
  "'t parser_lib \<Rightarrow> (string \<rightharpoonup> 't lang_parser) \<Rightarrow> json_record \<times> tokenizer \<times> args
     \<Rightarrow> py_error + InputFeatures" where
  "convert_examples_to_features lib parsers item =
     (case item of (js, tk, a) \<Rightarrow>
        (case parsers (lang a) of
           None \<Rightarrow> Inl KeyError
         | Some parser \<Rightarrow>
             (case extract_dataflow lib parser (original_string js) (lang a) of
                Inl e \<Rightarrow> Inl e
              | Inr (toks, graph) \<Rightarrow>
                  (let (ctoks, cids) = code_side tk a toks;
                       (ntoks, nids) = nl_side tk a (docstring_tokens js)
                   in Inr \<lparr>code_tokens = ctoks, code_ids = cids,
                           nl_tokens = ntoks, nl_ids = nids,
                           url = json_record.url js,
                           teacher_code_ids = None, teacher_nl_ids = None\<rparr>))))"

section \<open>A small instance\<close>

text \<open>
  A concrete instance of the parameters, on which the theorems below are exercised.  A
  syntax tree is the list of its leaf spans.  The stripper cuts a trailing \<^verbatim>\<open>#\<close> comment and
  fails on a double quote; the grammar fails on an opening parenthesis and otherwise finds
  three one-character leaves on the first line; the analysis reports that the leaf with
  index 2 comes from the leaf with index 0.
\<close>

definition sample_lib :: "token_index list parser_lib" where
  "sample_lib =
     \<lparr>remove_comments_and_docstrings =
        (\<lambda>code lang. if CHR 0x22 \<in> set code then Inl (Raised ''TokenError'')
                      else Inr (takeWhile (\<lambda>c. c \<noteq> CHR ''#'') code)),
      tree_to_token_index = (\<lambda>tree. Inr tree),
      index_to_code_token =
        (\<lambda>((r1, c1), (r2, c2)) ls.
           if 0 \<le> r1 \<and> nat r1 < length ls
           then Inr (take (nat (c2 - c1)) (drop (nat c1) (ls ! nat r1)))
           else Inl (Raised ''IndexError''))\<rparr>"

definition sample_edges :: "dataflow_edge list" where
  "sample_edges =
     [\<lparr>identifier_text = ''y'', target_index = 2, kind = comesFrom, source_indices = [0]\<rparr>,
      \<lparr>identifier_text = ''x'', target_index = 0, kind = comesFrom, source_indices = []\<rparr>]"

definition sample_parser :: "token_index list lang_parser" where
  "sample_parser =
     \<lparr>parse = (\<lambda>code. if CHR ''('' \<in> set code then Inl (Raised ''ValueError'')
                        else Inr [((0, 0), (0, 1)), ((0, 2), (0, 3)), ((0, 4), (0, 5))]),
      dfg = (\<lambda>tree index_to_code. Inr sample_edges)\<rparr>"

definition failing_analysis_parser :: "token_index list lang_parser" where
  "failing_analysis_parser =
     sample_parser\<lparr>dfg := (\<lambda>tree index_to_code. Inl (Raised ''RecursionError''))\<rparr>"

definition sample_parsers :: "string \<rightharpoonup> token_index list lang_parser" where
  "sample_parsers = [''python'' \<mapsto> sample_parser]"

definition sample_tokenizer :: tokenizer where
  "sample_tokenizer =
     \<lparr>tokenize = split_sep (CHR '' ''),
      convert_tokens_to_ids = map (\<lambda>t. int (length t) + 3),
      cls_token = ''<s>'', sep_token = ''</s>'', pad_token_id = 1\<rparr>"

definition sample_record :: json_record where
  "sample_record =
     \<lparr>original_string = ''x = y'', docstring_tokens = [''copy'', ''y''], url = ''u1''\<rparr>"

text \<open>Two edges on the same target, one of them without sources.\<close>

definition redefined_edges :: "dataflow_edge list" where
  "redefined_edges =
     [\<lparr>identifier_text = ''x'', target_index = 5, kind = comesFrom, source_indices = []\<rparr>,
      \<lparr>identifier_text = ''x'', target_index = 5, kind = computedFrom, source_indices = [3]\<rparr>]"

section \<open>The pruning step\<close>

lemma fold_insert_set: "fold insert xs S = set xs \<union> S"
  by (induction xs arbitrary: S) auto

lemma add_edge_indexs_eq:
  "add_edge_indexs d S =
     S \<union> (if source_indices d \<noteq> [] then {target_index d} else {}) \<union> set (source_indices d)"
  by (auto simp: add_edge_indexs_def fold_insert_set)

lemma fold_add_edge_indexs:
  "fold add_edge_indexs ds S =
     S \<union> {target_index d |d. d \<in> set ds \<and> source_indices d \<noteq> []}
       \<union> (\<Union>d\<in>set ds. set (source_indices d))"
proof (induction ds arbitrary: S)
  case Nil
  show ?case by simp
next
  case (Cons d ds)
  have "fold add_edge_indexs (d # ds) S = fold add_edge_indexs ds (add_edge_indexs d S)"
    by simp
  also have "\<dots> = add_edge_indexs d S
       \<union> {target_index d |d. d \<in> set ds \<and> source_indices d \<noteq> []}
       \<union> (\<Union>d\<in>set ds. set (source_indices d))"
    by (rule Cons.IH)
  also have "add_edge_indexs d S =
      S \<union> (if source_indices d \<noteq> [] then {target_index d} else {}) \<union> set (source_indices d)"
    by (rule add_edge_indexs_eq)
  finally have step: "fold add_edge_indexs (d # ds) S =
      S \<union> (if source_indices d \<noteq> [] then {target_index d} else {}) \<union> set (source_indices d)
       \<union> {target_index d |d. d \<in> set ds \<and> source_indices d \<noteq> []}
       \<union> (\<Union>d\<in>set ds. set (source_indices d))" .
  show ?case
    unfolding step by auto
qed

text \<open>The loop of lines 92-96 computes the set the specification describes.\<close>

lemma collect_indexs_eq:
  "collect_indexs ds =
     {target_index d |d. d \<in> set ds \<and> source_indices d \<noteq> []}
       \<union> (\<Union>d\<in>set ds. set (source_indices d))"
  by (simp add: collect_indexs_def fold_add_edge_indexs)

lemma collect_indexs_sort:
  "collect_indexs (sort_key target_index ds) = collect_indexs ds"
  by (simp add: collect_indexs_eq)

lemma prune_dfg_eq:
  "prune_dfg DFG =
     filter (\<lambda>d. target_index d \<in> collect_indexs DFG) (sort_key target_index DFG)"
  by (simp add: prune_dfg_def collect_indexs_sort Let_def)

lemma prune_dfg_Nil: "prune_dfg [] = []"
  by (simp add: prune_dfg_eq)

lemma set_prune_dfg:
  "set (prune_dfg DFG) = {d \<in> set DFG. target_index d \<in> collect_indexs DFG}"
  by (auto simp: prune_dfg_eq)

lemma nonempty_source_survives:
  "d \<in> set DFG \<Longrightarrow> source_indices d \<noteq> [] \<Longrightarrow> d \<in> set (prune_dfg DFG)"
  by (auto simp: set_prune_dfg collect_indexs_eq)

text \<open>Pruning removes no index from the set: each index is there because of an edge
  with sources, and such an edge survives.\<close>

lemma collect_indexs_prune:
  "collect_indexs (prune_dfg DFG) = collect_indexs DFG"
proof
  show "collect_indexs (prune_dfg DFG) \<subseteq> collect_indexs DFG"
    by (auto simp: collect_indexs_eq [of "prune_dfg DFG"] set_prune_dfg)
      (auto simp: collect_indexs_eq)
next
  show "collect_indexs DFG \<subseteq> collect_indexs (prune_dfg DFG)"
  proof
    fix x
    assume "x \<in> collect_indexs DFG"
    then consider
      (target) e where "e \<in> set DFG" "source_indices e \<noteq> []" "x = target_index e"
      | (source) e where "e \<in> set DFG" "x \<in> set (source_indices e)"
      by (auto simp: collect_indexs_eq)
    then have "\<exists>e\<in>set DFG. source_indices e \<noteq> []
        \<and> (x = target_index e \<or> x \<in> set (source_indices e))"
    proof cases
      case target
      then show ?thesis by blast
    next
      case source
      then have "source_indices e \<noteq> []" by auto
      with source show ?thesis by blast
    qed
    then obtain e where e: "e \<in> set DFG" "source_indices e \<noteq> []"
      "x = target_index e \<or> x \<in> set (source_indices e)"
      by blast
    then have "e \<in> set (prune_dfg DFG)"
      by (simp add: nonempty_source_survives)
    with e show "x \<in> collect_indexs (prune_dfg DFG)"
      by (auto simp: collect_indexs_eq [of "prune_dfg DFG"])
  qed
qed

lemma sorted_prune_dfg: "sorted (map target_index (prune_dfg DFG))"
  by (simp add: prune_dfg_eq sorted_filter)

text \<open>
  C3.  For every raw edge list the pruning step works on the list \<open>S\<close> that is the stable
  sort of the edges by \<open>target_index\<close>: \<open>S\<close> is ascending in \<open>target_index\<close>, has the same
  edges, and the edges of each \<open>target_index\<close> are in their emission order.  The output is
  exactly the edges of \<open>S\<close>, in that order, whose \<open>target_index\<close> is the target of an edge
  with non-empty \<open>source_indices\<close> or occurs in the \<open>source_indices\<close> of some edge.
\<close>

theorem prune_dfg_sorts_then_filters:
  "\<exists>S. sorted (map target_index S) \<and> mset S = mset DFG
      \<and> (\<forall>k. filter (\<lambda>d. target_index d = k) S = filter (\<lambda>d. target_index d = k) DFG)
      \<and> prune_dfg DFG =
          filter (\<lambda>d. target_index d \<in>
                    {target_index e |e. e \<in> set DFG \<and> source_indices e \<noteq> []}
                      \<union> (\<Union>e\<in>set DFG. set (source_indices e))) S"
proof (intro exI conjI allI)
  show "sorted (map target_index (sort_key target_index DFG))" by simp
  show "mset (sort_key target_index DFG) = mset DFG" by simp
  show "filter (\<lambda>d. target_index d = k) (sort_key target_index DFG)
          = filter (\<lambda>d. target_index d = k) DFG" for k
    by (rule sort_key_stable)
  show "prune_dfg DFG =
          filter (\<lambda>d. target_index d \<in>
                    {target_index e |e. e \<in> set DFG \<and> source_indices e \<noteq> []}
                      \<union> (\<Union>e\<in>set DFG. set (source_indices e))) (sort_key target_index DFG)"
    by (simp add: prune_dfg_eq collect_indexs_eq)
qed

text \<open>
  C4, as the code has it.  An edge of the raw list with empty \<open>source_indices\<close> survives
  pruning if and only if its \<open>target_index\<close> occurs in the \<open>source_indices\<close> of a surviving
  edge or is also the \<open>target_index\<close> of a surviving edge with non-empty \<open>source_indices\<close>;
  an empty-source edge for which neither holds is dropped.
\<close>

theorem empty_source_edge_survival:
  assumes "d \<in> set DFG" and "source_indices d = []"
  shows "d \<in> set (prune_dfg DFG) \<longleftrightarrow>
           (\<exists>e\<in>set (prune_dfg DFG). target_index d \<in> set (source_indices e))
         \<or> (\<exists>e\<in>set (prune_dfg DFG).
               source_indices e \<noteq> [] \<and> target_index e = target_index d)"
proof
  assume "d \<in> set (prune_dfg DFG)"
  then have "target_index d \<in> collect_indexs (prune_dfg DFG)"
    by (simp add: set_prune_dfg collect_indexs_prune)
  then show "(\<exists>e\<in>set (prune_dfg DFG). target_index d \<in> set (source_indices e))
         \<or> (\<exists>e\<in>set (prune_dfg DFG).
               source_indices e \<noteq> [] \<and> target_index e = target_index d)"
    by (auto simp: collect_indexs_eq [of "prune_dfg DFG"])
next
  assume "(\<exists>e\<in>set (prune_dfg DFG). target_index d \<in> set (source_indices e))
         \<or> (\<exists>e\<in>set (prune_dfg DFG).
               source_indices e \<noteq> [] \<and> target_index e = target_index d)"
  then have "target_index d \<in> collect_indexs (prune_dfg DFG)"
    by (auto simp: collect_indexs_eq [of "prune_dfg DFG"])
  with assms show "d \<in> set (prune_dfg DFG)"
    by (simp add: set_prune_dfg collect_indexs_prune)
qed

text \<open>
  The source-less edge of \<open>sample_edges\<close> is kept, because the other edge cites its target.
\<close>

theorem empty_source_edge_survival_witness:
  "sample_edges ! 1 \<in> set sample_edges \<and> source_indices (sample_edges ! 1) = []
     \<and> sample_edges ! 1 \<in> set (prune_dfg sample_edges)"
  using empty_source_edge_survival [of "sample_edges ! 1" sample_edges]
  by (simp add: sample_edges_def prune_dfg_def collect_indexs_def add_edge_indexs_def)

text \<open>
  C4, as the claim has it, fails where a token index is the target of two edges: the
  source-less edge on index 5 survives although no edge cites 5 as a source, because the
  other edge on index 5 has a source.
\<close>

theorem uncited_empty_source_edge_survives:
  "prune_dfg redefined_edges = redefined_edges
     \<and> source_indices (redefined_edges ! 0) = []
     \<and> target_index (redefined_edges ! 0) \<notin> set (source_indices (redefined_edges ! 0))
     \<and> target_index (redefined_edges ! 0) \<notin> set (source_indices (redefined_edges ! 1))"
  by (simp add: redefined_edges_def prune_dfg_def collect_indexs_def add_edge_indexs_def)

text \<open>
  C5.  The pruning step is idempotent: applied to its own output it returns that output.
\<close>

theorem prune_dfg_idempotent: "prune_dfg (prune_dfg DFG) = prune_dfg DFG"
proof -
  have "sort_key target_index (prune_dfg DFG) = prune_dfg DFG"
    by (rule sort_key_id_if_sorted) (rule sorted_prune_dfg)
  then have "prune_dfg (prune_dfg DFG)
      = filter (\<lambda>d. target_index d \<in> collect_indexs DFG) (prune_dfg DFG)"
    by (simp add: prune_dfg_eq [of "prune_dfg DFG"] collect_indexs_prune)
  also have "\<dots> = prune_dfg DFG"
    by (simp add: prune_dfg_eq)
  finally show ?thesis .
qed


section \<open>extract_dataflow: recovery and its limits\<close>

lemmas sample_defs =
  sample_lib_def sample_parser_def failing_analysis_parser_def sample_parsers_def
  sample_tokenizer_def sample_record_def sample_edges_def

lemmas extract_defs =
  extract_dataflow_def finish_def try_body_def wrap_php_def strip_comments_def
  prune_dfg_def collect_indexs_def add_edge_indexs_def

lemmas convert_defs =
  convert_examples_to_features_def code_side_def nl_side_def subword_pieces_def
  slice_to_def repeat_def

lemma extract_dataflow_unbound:
  "fst (try_body lib parser (wrap_php (strip_comments lib code lg) lg)) = None
     \<Longrightarrow> extract_dataflow lib parser code lg = Inl UnboundLocalError"
  by (simp add: extract_dataflow_def finish_def)

text \<open>
  C1.  When parsing fails, \<^verbatim>\<open>extract_dataflow\<close> does not return an empty token list with
  an empty graph: the handler of line 102 assigns \<^verbatim>\<open>dfg\<close> only, \<^verbatim>\<open>code_tokens\<close> is still
  unbound at line 104, and the function raises \<^verbatim>\<open>UnboundLocalError\<close>, which
  \<^verbatim>\<open>convert_examples_to_features\<close> passes on to its caller.
\<close>

theorem parse_failure_raises:
  assumes "parsers (lang a) = Some parser"
    and "parse parser (wrap_php (strip_comments lib (original_string js) (lang a)) (lang a))
           = Inl e"
  shows "extract_dataflow lib parser (original_string js) (lang a) = Inl UnboundLocalError
     \<and> convert_examples_to_features lib parsers (js, tk, a) = Inl UnboundLocalError"
proof -
  have "fst (try_body lib parser
          (wrap_php (strip_comments lib (original_string js) (lang a)) (lang a))) = None"
    using assms(2) by (simp add: try_body_def)
  then have "extract_dataflow lib parser (original_string js) (lang a) = Inl UnboundLocalError"
    by (rule extract_dataflow_unbound)
  with assms(1) show ?thesis
    by (simp add: convert_examples_to_features_def)
qed

text \<open>The sample grammar rejects \<^verbatim>\<open>f(x\<close>, and no features come back for that record.\<close>

theorem parse_failure_raises_witness:
  "sample_parsers (lang \<lparr>lang = ''python'', code_length = 8, nl_length = 6\<rparr>)
      = Some sample_parser
   \<and> parse sample_parser (wrap_php (strip_comments sample_lib
        (original_string (sample_record\<lparr>original_string := ''f(x''\<rparr>)) ''python'') ''python'')
       = Inl (Raised ''ValueError'')
   \<and> convert_examples_to_features sample_lib sample_parsers
        (sample_record\<lparr>original_string := ''f(x''\<rparr>, sample_tokenizer,
         \<lparr>lang = ''python'', code_length = 8, nl_length = 6\<rparr>) = Inl UnboundLocalError"
  using parse_failure_raises
    [of sample_parsers "\<lparr>lang = ''python'', code_length = 8, nl_length = 6\<rparr>"
      sample_parser sample_lib "sample_record\<lparr>original_string := ''f(x''\<rparr>"
      "Raised ''ValueError''" sample_tokenizer]
  by (simp add: sample_defs wrap_php_def strip_comments_def)


text \<open>
  C8.  When the stripper raises, the rest of the function runs on the original source:
  the result is that of the \<^verbatim>\<open>try\<close> body on the unmodified (for php, wrapped) text, and it
  is the result of the same run with a stripper that returns its input unchanged.
\<close>

theorem strip_failure_keeps_source:
  assumes "remove_comments_and_docstrings lib code lg = Inl e"
  shows "extract_dataflow lib parser code lg = finish (try_body lib parser (wrap_php code lg))
     \<and> extract_dataflow lib parser code lg =
         extract_dataflow (lib\<lparr>remove_comments_and_docstrings := \<lambda>c l. Inr c\<rparr>) parser code lg"
proof -
  have "try_body (lib\<lparr>remove_comments_and_docstrings := \<lambda>c l. Inr c\<rparr>) parser src
      = try_body lib parser src" for src
    by (simp add: try_body_def cong: sum.case_cong)
  with assms show ?thesis
    by (simp add: extract_dataflow_def strip_comments_def)
qed

text \<open>
  The sample stripper raises on a double quote; the tokens are those of the original
  text, the quote included.
\<close>

theorem strip_failure_keeps_source_witness:
  "remove_comments_and_docstrings sample_lib
      [CHR ''x'', CHR '' '', CHR ''='', CHR '' '', CHR 0x22] ''python''
     = Inl (Raised ''TokenError'')
   \<and> extract_dataflow sample_lib sample_parser
        [CHR ''x'', CHR '' '', CHR ''='', CHR '' '', CHR 0x22] ''python''
       = Inr ([''x'', ''='', [CHR 0x22]], rev sample_edges)"
  using strip_failure_keeps_source
    [of sample_lib "[CHR ''x'', CHR '' '', CHR ''='', CHR '' '', CHR 0x22]" "''python''"
      "Raised ''TokenError''" sample_parser]
  by (simp add: sample_defs extract_defs)

text \<open>
  C9.  When the source was parsed, its leaves were indexed and every token text was
  sliced out, and the analysis then raises, \<^verbatim>\<open>extract_dataflow\<close> returns all the code
  tokens together with the empty graph.
\<close>

theorem analysis_failure_gives_empty_graph:
  assumes "parse parser (wrap_php (strip_comments lib code lg) lg) = Inr tree"
    and "tree_to_token_index lib tree = Inr tokens_index"
    and "map_raise (\<lambda>x. index_to_code_token lib x
            (split_sep (CHR 0x0A) (wrap_php (strip_comments lib code lg) lg)))
          tokens_index = Inr toks"
    and "dfg parser tree (build_index_to_code tokens_index toks) = Inl e"
  shows "extract_dataflow lib parser code lg = Inr (toks, [])"
  using assms by (simp add: extract_dataflow_def finish_def try_body_def prune_dfg_Nil)

text \<open>The sample source with an analysis that raises: three tokens, no edge.\<close>

theorem analysis_failure_gives_empty_graph_witness:
  "parse failing_analysis_parser
      (wrap_php (strip_comments sample_lib ''x = y'' ''python'') ''python'')
      = Inr [((0, 0), (0, 1)), ((0, 2), (0, 3)), ((0, 4), (0, 5))]
   \<and> dfg failing_analysis_parser [((0, 0), (0, 1)), ((0, 2), (0, 3)), ((0, 4), (0, 5))]
        (build_index_to_code [((0, 0), (0, 1)), ((0, 2), (0, 3)), ((0, 4), (0, 5))]
           [''x'', ''='', ''y''])
      = Inl (Raised ''RecursionError'')
   \<and> extract_dataflow sample_lib failing_analysis_parser ''x = y'' ''python''
      = Inr ([''x'', ''='', ''y''], [])"
  using analysis_failure_gives_empty_graph
    [of failing_analysis_parser sample_lib "''x = y''" "''python''"
      "[((0, 0), (0, 1)), ((0, 2), (0, 3)), ((0, 4), (0, 5))]"
      "[((0, 0), (0, 1)), ((0, 2), (0, 3)), ((0, 4), (0, 5))]" "[''x'', ''='', ''y'']"
      "Raised ''RecursionError''"]
  by (simp add: sample_defs wrap_php_def strip_comments_def)


section \<open>convert_examples_to_features\<close>

lemma convert_Inr:
  assumes "convert_examples_to_features lib parsers (js, tk, a) = Inr ex"
  shows "\<exists>p toks g. parsers (lang a) = Some p
           \<and> extract_dataflow lib p (original_string js) (lang a) = Inr (toks, g)
           \<and> ex = \<lparr>code_tokens = fst (code_side tk a toks),
                    code_ids = snd (code_side tk a toks),
                    nl_tokens = fst (nl_side tk a (docstring_tokens js)),
                    nl_ids = snd (nl_side tk a (docstring_tokens js)),
                    url = json_record.url js,
                    teacher_code_ids = None, teacher_nl_ids = None\<rparr>"
  using assms
  by (auto simp: convert_examples_to_features_def split: option.splits sum.splits prod.splits)

lemma slice_to_nonneg: "0 \<le> n \<Longrightarrow> slice_to n xs = take (nat n) xs"
  by (simp add: slice_to_def)

text \<open>Truncate, wrap, convert, pad: the tail that both sides share.\<close>

lemma wrap_and_pad_length:
  assumes "\<forall>ts. length (convert_tokens_to_ids tk ts) = length ts" and "2 \<le> n"
  shows "int (length (convert_tokens_to_ids tk ([c] @ take (nat (n - 2)) xs @ [s])
            @ repeat pad (n - int (length (convert_tokens_to_ids tk
                ([c] @ take (nat (n - 2)) xs @ [s])))))) = n"
proof -
  have "length (convert_tokens_to_ids tk ([c] @ take (nat (n - 2)) xs @ [s]))
      = min (length xs) (nat (n - 2)) + 2"
    using assms(1) by simp
  moreover have "int (min (length xs) (nat (n - 2)) + 2) \<le> n"
    using assms(2) by simp
  ultimately show ?thesis
    by (simp add: repeat_def)
qed

lemma code_side_eq:
  "0 \<le> code_length a - 2 \<Longrightarrow>
   code_side tk a toks =
     ([cls_token tk] @ take (nat (code_length a - 2)) (subword_pieces tk toks) @ [sep_token tk],
      convert_tokens_to_ids tk
        ([cls_token tk] @ take (nat (code_length a - 2)) (subword_pieces tk toks) @ [sep_token tk])
      @ repeat (pad_token_id tk) (code_length a - int (length (convert_tokens_to_ids tk
        ([cls_token tk] @ take (nat (code_length a - 2)) (subword_pieces tk toks)
           @ [sep_token tk])))))"
  by (simp add: code_side_def slice_to_nonneg Let_def)

lemma nl_side_eq:
  "0 \<le> nl_length a - 2 \<Longrightarrow>
   nl_side tk a doc =
     ([cls_token tk] @ take (nat (nl_length a - 2)) (tokenize tk (join '' '' doc)) @ [sep_token tk],
      convert_tokens_to_ids tk
        ([cls_token tk] @ take (nat (nl_length a - 2)) (tokenize tk (join '' '' doc)) @ [sep_token tk])
      @ repeat (pad_token_id tk) (nl_length a - int (length (convert_tokens_to_ids tk
        ([cls_token tk] @ take (nat (nl_length a - 2)) (tokenize tk (join '' '' doc))
           @ [sep_token tk])))))"
  by (simp add: nl_side_def slice_to_nonneg Let_def)

text \<open>
  C2, as the code has it.  For a tokenizer that maps each piece to exactly one id and a
  configuration with \<open>code_length \<ge> 2\<close> and \<open>nl_length \<ge> 2\<close>, every Example that
  \<^verbatim>\<open>convert_examples_to_features\<close> returns has \<open>code_ids\<close> of length \<open>code_length\<close> and
  \<open>nl_ids\<close> of length \<open>nl_length\<close>: the flattened pieces are cut to the length minus 2,
  put between the cls and sep tokens, converted, and padded on the right with the pad id.
\<close>

theorem fixed_length_contract:
  assumes conv: "convert_examples_to_features lib parsers (js, tk, a) = Inr ex"
    and ids: "\<forall>ts. length (convert_tokens_to_ids tk ts) = length ts"
    and cl: "2 \<le> code_length a" and nl: "2 \<le> nl_length a"
  shows "int (length (code_ids ex)) = code_length a \<and> int (length (nl_ids ex)) = nl_length a
     \<and> (\<exists>p toks g. parsers (lang a) = Some p
           \<and> extract_dataflow lib p (original_string js) (lang a) = Inr (toks, g)
           \<and> code_tokens ex = [cls_token tk]
                 @ take (nat (code_length a - 2)) (subword_pieces tk toks) @ [sep_token tk])
     \<and> code_ids ex = convert_tokens_to_ids tk (code_tokens ex)
           @ replicate (nat (code_length a) - length (code_tokens ex)) (pad_token_id tk)
     \<and> nl_tokens ex = [cls_token tk]
           @ take (nat (nl_length a - 2)) (tokenize tk (join '' '' (docstring_tokens js)))
           @ [sep_token tk]
     \<and> nl_ids ex = convert_tokens_to_ids tk (nl_tokens ex)
           @ replicate (nat (nl_length a) - length (nl_tokens ex)) (pad_token_id tk)"
proof -
  from convert_Inr [OF conv] obtain p toks g where
    p: "parsers (lang a) = Some p"
    and ext: "extract_dataflow lib p (original_string js) (lang a) = Inr (toks, g)"
    and ex: "ex = \<lparr>code_tokens = fst (code_side tk a toks),
                    code_ids = snd (code_side tk a toks),
                    nl_tokens = fst (nl_side tk a (docstring_tokens js)),
                    nl_ids = snd (nl_side tk a (docstring_tokens js)),
                    url = json_record.url js,
                    teacher_code_ids = None, teacher_nl_ids = None\<rparr>"
    by blast
  have c0: "0 \<le> code_length a - 2" and n0: "0 \<le> nl_length a - 2"
    using cl nl by simp_all
  have ctoks: "code_tokens ex = [cls_token tk]
      @ take (nat (code_length a - 2)) (subword_pieces tk toks) @ [sep_token tk]"
    by (simp add: ex code_side_eq [OF c0])
  have cids: "code_ids ex = convert_tokens_to_ids tk (code_tokens ex)
      @ repeat (pad_token_id tk)
          (code_length a - int (length (convert_tokens_to_ids tk (code_tokens ex))))"
    by (simp add: ex code_side_eq [OF c0])
  have ntoks: "nl_tokens ex = [cls_token tk]
      @ take (nat (nl_length a - 2)) (tokenize tk (join '' '' (docstring_tokens js)))
      @ [sep_token tk]"
    by (simp add: ex nl_side_eq [OF n0])
  have nids: "nl_ids ex = convert_tokens_to_ids tk (nl_tokens ex)
      @ repeat (pad_token_id tk)
          (nl_length a - int (length (convert_tokens_to_ids tk (nl_tokens ex))))"
    by (simp add: ex nl_side_eq [OF n0])
  have clen: "int (length (code_ids ex)) = code_length a"
    unfolding cids unfolding ctoks by (rule wrap_and_pad_length [OF ids cl])
  have nlen: "int (length (nl_ids ex)) = nl_length a"
    unfolding nids unfolding ntoks by (rule wrap_and_pad_length [OF ids nl])
  have rep: "repeat x (n - int (length (convert_tokens_to_ids tk ts)))
      = replicate (nat n - length ts) x" for x :: int and n ts
    using ids by (simp add: repeat_def nat_diff_distrib')
  from p ext ctoks have "\<exists>p toks g. parsers (lang a) = Some p
           \<and> extract_dataflow lib p (original_string js) (lang a) = Inr (toks, g)
           \<and> code_tokens ex = [cls_token tk]
                 @ take (nat (code_length a - 2)) (subword_pieces tk toks) @ [sep_token tk]"
    by blast
  with clen nlen cids nids ntoks show ?thesis
    by (simp only: rep)
qed

text \<open>The sample record with lengths 8 and 6: three pad ids on the code side, two on the
  text side.\<close>

theorem fixed_length_contract_witness:
  "convert_examples_to_features sample_lib sample_parsers
      (sample_record, sample_tokenizer, \<lparr>lang = ''python'', code_length = 8, nl_length = 6\<rparr>)
     = Inr \<lparr>code_tokens = [''<s>'', ''x'', ''='', ''y'', ''</s>''],
            code_ids = [6, 4, 4, 4, 7, 1, 1, 1],
            nl_tokens = [''<s>'', ''copy'', ''y'', ''</s>''],
            nl_ids = [6, 7, 4, 7, 1, 1],
            url = ''u1'', teacher_code_ids = None, teacher_nl_ids = None\<rparr>
   \<and> (\<forall>ts. length (convert_tokens_to_ids sample_tokenizer ts) = length ts)
   \<and> int (length [6, 4, 4, 4, 7, 1, 1, 1 :: int]) = 8
   \<and> int (length [6, 7, 4, 7, 1, 1 :: int]) = 6"
proof -
  have run: "convert_examples_to_features sample_lib sample_parsers
      (sample_record, sample_tokenizer, \<lparr>lang = ''python'', code_length = 8, nl_length = 6\<rparr>)
     = Inr \<lparr>code_tokens = [''<s>'', ''x'', ''='', ''y'', ''</s>''],
            code_ids = [6, 4, 4, 4, 7, 1, 1, 1],
            nl_tokens = [''<s>'', ''copy'', ''y'', ''</s>''],
            nl_ids = [6, 7, 4, 7, 1, 1],
            url = ''u1'', teacher_code_ids = None, teacher_nl_ids = None\<rparr>"
    by (simp add: sample_defs extract_defs convert_defs enumerate_eq_zip eval_nat_numeral)
  have ids: "\<forall>ts. length (convert_tokens_to_ids sample_tokenizer ts) = length ts"
    by (simp add: sample_tokenizer_def)
  from fixed_length_contract [OF run ids] run ids show ?thesis
    by simp
qed

text \<open>
  C2, as the claim has it, fails for a configured length below 2.  With \<open>code_length = 1\<close>
  the slice bound is \<open>-1\<close>, which drops the last piece only; the two sentinels are added
  and nothing is padded: four ids, not one.  The tokenizer maps each piece to one id.
\<close>

theorem short_length_breaks_contract:
  "convert_examples_to_features sample_lib sample_parsers
      (sample_record, sample_tokenizer, \<lparr>lang = ''python'', code_length = 1, nl_length = 6\<rparr>)
     = Inr \<lparr>code_tokens = [''<s>'', ''x'', ''='', ''</s>''],
            code_ids = [6, 4, 4, 7],
            nl_tokens = [''<s>'', ''copy'', ''y'', ''</s>''],
            nl_ids = [6, 7, 4, 7, 1, 1],
            url = ''u1'', teacher_code_ids = None, teacher_nl_ids = None\<rparr>
   \<and> convert_tokens_to_ids sample_tokenizer = map (\<lambda>t. int (length t) + 3)
   \<and> int (length [6, 4, 4, 7 :: int]) \<noteq> 1"
  by (simp add: sample_defs extract_defs convert_defs enumerate_eq_zip eval_nat_numeral)


text \<open>
  C6.  The returned Example does not depend on the dataflow graph: two runs on the same
  record, tokenizer and configuration whose extractions return the same code tokens, with
  whatever edge lists, return the same Example.
\<close>

theorem example_ignores_dataflow_graph:
  assumes "P (lang a) = Some p" and "Q (lang a) = Some q"
    and "extract_dataflow lib p (original_string js) (lang a) = Inr (toks, g)"
    and "extract_dataflow lib' q (original_string js) (lang a) = Inr (toks, h)"
  shows "convert_examples_to_features lib P (js, tk, a)
           = convert_examples_to_features lib' Q (js, tk, a)
     \<and> (\<exists>ex. convert_examples_to_features lib P (js, tk, a) = Inr ex)"
  using assms
  by (simp add: convert_examples_to_features_def split: prod.splits)

text \<open>
  The sample analysis and the failing analysis give different graphs for the same tokens,
  and the same Example.
\<close>

theorem example_ignores_dataflow_graph_witness:
  "extract_dataflow sample_lib sample_parser ''x = y'' ''python''
     = Inr ([''x'', ''='', ''y''], rev sample_edges)
   \<and> extract_dataflow sample_lib failing_analysis_parser ''x = y'' ''python''
     = Inr ([''x'', ''='', ''y''], [])
   \<and> convert_examples_to_features sample_lib sample_parsers
         (sample_record, sample_tokenizer, \<lparr>lang = ''python'', code_length = 8, nl_length = 6\<rparr>)
     = convert_examples_to_features sample_lib [''python'' \<mapsto> failing_analysis_parser]
         (sample_record, sample_tokenizer, \<lparr>lang = ''python'', code_length = 8, nl_length = 6\<rparr>)"
proof -
  have p: "sample_parsers (lang \<lparr>lang = ''python'', code_length = 8, nl_length = 6\<rparr>)
      = Some sample_parser"
    by (simp add: sample_parsers_def)
  have q: "[''python'' \<mapsto> failing_analysis_parser]
      (lang \<lparr>lang = ''python'', code_length = 8, nl_length = 6\<rparr>) = Some failing_analysis_parser"
    by simp
  have g: "extract_dataflow sample_lib sample_parser (original_string sample_record)
      (lang \<lparr>lang = ''python'', code_length = 8, nl_length = 6\<rparr>)
     = Inr ([''x'', ''='', ''y''], rev sample_edges)"
    by (simp add: sample_defs extract_defs)
  have h: "extract_dataflow sample_lib failing_analysis_parser (original_string sample_record)
      (lang \<lparr>lang = ''python'', code_length = 8, nl_length = 6\<rparr>)
     = Inr ([''x'', ''='', ''y''], [])"
    by (simp add: sample_defs extract_defs)
  have "convert_examples_to_features sample_lib sample_parsers
         (sample_record, sample_tokenizer, \<lparr>lang = ''python'', code_length = 8, nl_length = 6\<rparr>)
     = convert_examples_to_features sample_lib [''python'' \<mapsto> failing_analysis_parser]
         (sample_record, sample_tokenizer, \<lparr>lang = ''python'', code_length = 8, nl_length = 6\<rparr>)"
    using example_ignores_dataflow_graph
      [where P = sample_parsers and Q = "[''python'' \<mapsto> failing_analysis_parser]"
         and a = "\<lparr>lang = ''python'', code_length = 8, nl_length = 6\<rparr>"
         and p = sample_parser and q = failing_analysis_parser
         and lib = sample_lib and lib' = sample_lib and js = sample_record
         and toks = "[''x'', ''='', ''y'']" and g = "rev sample_edges" and h = "[]"
         and tk = sample_tokenizer]
      p q g h
    by blast
  with g h show ?thesis
    by (simp add: sample_record_def)
qed

text \<open>
  What holds of the two sides.  The code side is a function of \<open>original_string\<close>,
  \<open>lang\<close> and \<open>code_length\<close> alone, exceptions included.  The text side is a function
  of \<open>docstring_tokens\<close> and \<open>nl_length\<close> alone on the runs that return an Example.
\<close>

lemma code_side_of_source_only:
  assumes "original_string js1 = original_string js2" and "lang a1 = lang a2"
    and "code_length a1 = code_length a2"
  shows "map_sum id (\<lambda>ex. (code_tokens ex, code_ids ex))
           (convert_examples_to_features lib parsers (js1, tk, a1))
       = map_sum id (\<lambda>ex. (code_tokens ex, code_ids ex))
           (convert_examples_to_features lib parsers (js2, tk, a2))"
  using assms
  by (simp add: convert_examples_to_features_def code_side_def
      split: option.splits sum.splits prod.splits)

lemma text_side_of_description_when_returned:
  assumes "convert_examples_to_features lib parsers (js1, tk, a1) = Inr ex1"
    and "convert_examples_to_features lib parsers (js2, tk, a2) = Inr ex2"
    and "docstring_tokens js1 = docstring_tokens js2" and "nl_length a1 = nl_length a2"
  shows "nl_tokens ex1 = nl_tokens ex2 \<and> nl_ids ex1 = nl_ids ex2"
proof -
  from convert_Inr [OF assms(1)] have
    1: "nl_tokens ex1 = fst (nl_side tk a1 (docstring_tokens js1))"
       "nl_ids ex1 = snd (nl_side tk a1 (docstring_tokens js1))"
    by auto
  from convert_Inr [OF assms(2)] have
    2: "nl_tokens ex2 = fst (nl_side tk a2 (docstring_tokens js2))"
       "nl_ids ex2 = snd (nl_side tk a2 (docstring_tokens js2))"
    by auto
  from assms(3,4) show ?thesis
    by (simp add: 1 2 nl_side_def)
qed

text \<open>
  C10.  The text side is not independent of \<open>original_string\<close>.  Of two records with the
  same \<open>docstring_tokens\<close>, under the same tokenizer and configuration, the one whose
  source is extracted yields an Example whose \<open>nl_tokens\<close> and \<open>nl_ids\<close> are those of
  the shared description, and the one whose source fails to parse yields none:
  \<^verbatim>\<open>extract_dataflow\<close> raises \<^verbatim>\<open>UnboundLocalError\<close> at line 104, and line 131 passes
  it on before the text side of lines 143-152 is reached.
\<close>

theorem text_side_lost_on_parse_failure:
  assumes "parsers (lang a) = Some parser"
    and "extract_dataflow lib parser (original_string js1) (lang a) = Inr (toks, g)"
    and "parse parser (wrap_php (strip_comments lib (original_string js2) (lang a)) (lang a))
           = Inl e"
    and "docstring_tokens js1 = docstring_tokens js2"
  shows "(\<exists>ex. convert_examples_to_features lib parsers (js1, tk, a) = Inr ex
            \<and> nl_tokens ex = fst (nl_side tk a (docstring_tokens js2))
            \<and> nl_ids ex = snd (nl_side tk a (docstring_tokens js2)))
     \<and> convert_examples_to_features lib parsers (js2, tk, a) = Inl UnboundLocalError"
proof -
  have "fst (try_body lib parser
          (wrap_php (strip_comments lib (original_string js2) (lang a)) (lang a))) = None"
    using assms(3) by (simp add: try_body_def)
  then have "extract_dataflow lib parser (original_string js2) (lang a) = Inl UnboundLocalError"
    by (rule extract_dataflow_unbound)
  with assms(1) have lost:
    "convert_examples_to_features lib parsers (js2, tk, a) = Inl UnboundLocalError"
    by (simp add: convert_examples_to_features_def)
  from assms(1,2,4) have "\<exists>ex. convert_examples_to_features lib parsers (js1, tk, a) = Inr ex
            \<and> nl_tokens ex = fst (nl_side tk a (docstring_tokens js2))
            \<and> nl_ids ex = snd (nl_side tk a (docstring_tokens js2))"
    by (simp add: convert_examples_to_features_def split: prod.splits)
  with lost show ?thesis by blast
qed

text \<open>
  The sample record and the record with the same description and the source \<^verbatim>\<open>f(x\<close>,
  which the sample grammar rejects: text ids for the first, an exception for the second.
\<close>

theorem text_side_lost_on_parse_failure_witness:
  "docstring_tokens sample_record
      = docstring_tokens (sample_record\<lparr>original_string := ''f(x''\<rparr>)
   \<and> parse sample_parser (wrap_php (strip_comments sample_lib
        (original_string (sample_record\<lparr>original_string := ''f(x''\<rparr>)) ''python'') ''python'')
       = Inl (Raised ''ValueError'')
   \<and> convert_examples_to_features sample_lib sample_parsers
        (sample_record, sample_tokenizer, \<lparr>lang = ''python'', code_length = 8, nl_length = 6\<rparr>)
       = Inr \<lparr>code_tokens = [''<s>'', ''x'', ''='', ''y'', ''</s>''],
              code_ids = [6, 4, 4, 4, 7, 1, 1, 1],
              nl_tokens = [''<s>'', ''copy'', ''y'', ''</s>''],
              nl_ids = [6, 7, 4, 7, 1, 1],
              url = ''u1'', teacher_code_ids = None, teacher_nl_ids = None\<rparr>
   \<and> convert_examples_to_features sample_lib sample_parsers
        (sample_record\<lparr>original_string := ''f(x''\<rparr>, sample_tokenizer,
         \<lparr>lang = ''python'', code_length = 8, nl_length = 6\<rparr>) = Inl UnboundLocalError"
proof -
  have p: "sample_parsers (lang \<lparr>lang = ''python'', code_length = 8, nl_length = 6\<rparr>)
      = Some sample_parser"
    by (simp add: sample_parsers_def)
  have g: "extract_dataflow sample_lib sample_parser (original_string sample_record)
      (lang \<lparr>lang = ''python'', code_length = 8, nl_length = 6\<rparr>)
     = Inr ([''x'', ''='', ''y''], rev sample_edges)"
    by (simp add: sample_defs extract_defs)
  have f: "parse sample_parser (wrap_php (strip_comments sample_lib
        (original_string (sample_record\<lparr>original_string := ''f(x''\<rparr>))
        (lang \<lparr>lang = ''python'', code_length = 8, nl_length = 6\<rparr>))
        (lang \<lparr>lang = ''python'', code_length = 8, nl_length = 6\<rparr>))
       = Inl (Raised ''ValueError'')"
    by (simp add: sample_defs wrap_php_def strip_comments_def)
  have d: "docstring_tokens sample_record
      = docstring_tokens (sample_record\<lparr>original_string := ''f(x''\<rparr>)"
    by simp
  have run: "convert_examples_to_features sample_lib sample_parsers
        (sample_record, sample_tokenizer, \<lparr>lang = ''python'', code_length = 8, nl_length = 6\<rparr>)
       = Inr \<lparr>code_tokens = [''<s>'', ''x'', ''='', ''y'', ''</s>''],
              code_ids = [6, 4, 4, 4, 7, 1, 1, 1],
              nl_tokens = [''<s>'', ''copy'', ''y'', ''</s>''],
              nl_ids = [6, 7, 4, 7, 1, 1],
              url = ''u1'', teacher_code_ids = None, teacher_nl_ids = None\<rparr>"
    by (simp add: sample_defs extract_defs convert_defs enumerate_eq_zip eval_nat_numeral)
  have "convert_examples_to_features sample_lib sample_parsers
        (sample_record\<lparr>original_string := ''f(x''\<rparr>, sample_tokenizer,
         \<lparr>lang = ''python'', code_length = 8, nl_length = 6\<rparr>) = Inl UnboundLocalError"
    using text_side_lost_on_parse_failure
      [where parsers = sample_parsers and parser = sample_parser and lib = sample_lib
         and a = "\<lparr>lang = ''python'', code_length = 8, nl_length = 6\<rparr>"
         and ?js1.0 = sample_record
         and ?js2.0 = "sample_record\<lparr>original_string := ''f(x''\<rparr>"
         and toks = "[''x'', ''='', ''y'']" and g = "rev sample_edges"
         and e = "Raised ''ValueError''" and tk = sample_tokenizer]
      p g f d
    by blast
  with d f run show ?thesis
    by simp
qed

end
